theory Spec2Isabelle
  imports Complex_Main
begin

section \<open>JavaScript values\<close>

text \<open>
  A JavaScript number as the controllers meet it: an integer, or one of the two
  non-finite results a division by a zero page size can give
  (\<^verbatim>\<open>total / 0\<close> is \<^verbatim>\<open>Infinity\<close> for a positive total and
  \<^verbatim>\<open>NaN\<close> for \<^verbatim>\<open>0 / 0\<close>).
\<close>

datatype jsnum = JsInt int | JsInf | JsNaN

text \<open>
  The values handed to \<^verbatim>\<open>res.json\<close>. An object is an association list,
  in the order in which the source writes the properties.
\<close>

datatype jsval =
    JNull
  | JBool bool
  | JNum jsnum
  | JStr string
  | JArr "jsval list"
  | JObj "(string \<times> jsval) list"

text \<open>Truthiness, as \<^verbatim>\<open>if (x)\<close> and \<^verbatim>\<open>x || d\<close> test it.\<close>

fun truthy_num :: "jsnum \<Rightarrow> bool" where
  "truthy_num (JsInt n) = (n \<noteq> 0)"
| "truthy_num JsInf = True"
| "truthy_num JsNaN = False"

fun truthy :: "jsval \<Rightarrow> bool" where
  "truthy JNull = False"
| "truthy (JBool b) = b"
| "truthy (JNum n) = truthy_num n"
| "truthy (JStr s) = (s \<noteq> [])"
| "truthy (JArr xs) = True"
| "truthy (JObj kvs) = True"

definition or_else :: "jsval \<Rightarrow> jsval \<Rightarrow> jsval" where
  "or_else x d = (if truthy x then x else d)"

text \<open>Property access: \<^verbatim>\<open>o.k\<close>, and a path of such accesses.\<close>

fun jget :: "string \<Rightarrow> jsval \<Rightarrow> jsval option" where
  "jget k (JObj kvs) = map_of kvs k"
| "jget k v = None"

fun jpath :: "string list \<Rightarrow> jsval \<Rightarrow> jsval option" where
  "jpath [] v = Some v"
| "jpath (k # ks) v = (case jget k v of None \<Rightarrow> None | Some w \<Rightarrow> jpath ks w)"

fun keys_of :: "jsval \<Rightarrow> string list" where
  "keys_of (JObj kvs) = map fst kvs"
| "keys_of v = []"

text \<open>
  \<^verbatim>\<open>Math.ceil(total / limit)\<close> for a row count and a page size. The quotient
  of the two integers is rounded up; a zero page size gives a non-finite number.
\<close>

definition math_ceil_div :: "nat \<Rightarrow> int \<Rightarrow> jsnum" where
  "math_ceil_div tot limit =
     (if limit = 0 then (if tot = 0 then JsNaN else JsInf)
      else JsInt (- ((- int tot) div limit)))"

text \<open>\<^verbatim>\<open>page < totalPages\<close>: every comparison with \<^verbatim>\<open>NaN\<close> is false.\<close>

fun js_less :: "int \<Rightarrow> jsnum \<Rightarrow> bool" where
  "js_less p (JsInt n) = (p < n)"
| "js_less p JsInf = True"
| "js_less p JsNaN = False"

section \<open>The response formatter (utils/responseFormatter.js)\<close>

text \<open>
  Every formatter returns the pair \<^verbatim>\<open>{ statusCode, json: response }\<close>. The
  time stamp \<^verbatim>\<open>new Date().toISOString()\<close> is the parameter \<open>now\<close>.
\<close>

definition sendSuccess :: "string \<Rightarrow> jsval \<Rightarrow> string \<Rightarrow> int \<Rightarrow> jsval" where
  "sendSuccess now data message statusCode =
     JObj [(''statusCode'', JNum (JsInt statusCode)),
           (''json'', JObj ([(''success'', JBool True),
                             (''message'', JStr message),
                             (''timestamp'', JStr now)]
                            @ (if data \<noteq> JNull then [(''data'', data)] else [])))]"

definition sendError :: "string \<Rightarrow> string \<Rightarrow> int \<Rightarrow> jsval \<Rightarrow> jsval" where
  "sendError now message statusCode errors =
     JObj [(''statusCode'', JNum (JsInt statusCode)),
           (''json'', JObj ([(''success'', JBool False),
                             (''message'', JStr message),
                             (''timestamp'', JStr now)]
                            @ (if truthy errors then [(''errors'', errors)] else [])))]"

record pagination =
  pg_page :: int
  pg_limit :: int
  pg_total :: nat
  pg_pages :: jsnum
  pg_hasNext :: bool
  pg_hasPrev :: bool

definition sendPaginatedResponse :: "string \<Rightarrow> jsval \<Rightarrow> pagination \<Rightarrow> string \<Rightarrow> jsval" where
  "sendPaginatedResponse now data pagination message =
     JObj [(''statusCode'', JNum (JsInt 200)),
           (''json'', JObj [(''success'', JBool True),
                            (''message'', JStr message),
                            (''timestamp'', JStr now),
                            (''data'', data),
                            (''pagination'', JObj
                               [(''page'', or_else (JNum (JsInt (pg_page pagination))) (JNum (JsInt 1))),
                                (''limit'', or_else (JNum (JsInt (pg_limit pagination))) (JNum (JsInt 10))),
                                (''total'', or_else (JNum (JsInt (int (pg_total pagination)))) (JNum (JsInt 0))),
                                (''pages'', or_else (JNum (pg_pages pagination)) (JNum (JsInt 1))),
                                (''hasNext'', or_else (JBool (pg_hasNext pagination)) (JBool False)),
                                (''hasPrev'', or_else (JBool (pg_hasPrev pagination)) (JBool False))])])]"

definition calculatePagination :: "int \<Rightarrow> int \<Rightarrow> nat \<Rightarrow> pagination" where
  "calculatePagination page limit tot =
     (let totalPages = math_ceil_div tot limit;
          hasNext = js_less page totalPages;
          hasPrev = (page > 1)
      in \<lparr>pg_page = page, pg_limit = limit, pg_total = tot,
          pg_pages = totalPages, pg_hasNext = hasNext, pg_hasPrev = hasPrev\<rparr>)"

text \<open>
  \<^verbatim>\<open>results.length\<close> of the search formatter needs the array behind the value.
  The search information is given by its two properties; one that is left out is
  \<open>JNull\<close> here, falsy like \<^verbatim>\<open>undefined\<close>.
\<close>

fun js_length :: "jsval \<Rightarrow> int" where
  "js_length (JArr xs) = int (length xs)"
| "js_length v = 0"

definition sendSearchResponse ::
    "string \<Rightarrow> jsval \<Rightarrow> jsval \<Rightarrow> jsval \<Rightarrow> pagination \<Rightarrow> jsval" where
  "sendSearchResponse now results query filters pagination =
     JObj [(''statusCode'', JNum (JsInt 200)),
           (''json'', JObj [(''success'', JBool True),
                            (''message'', JStr ''Search completed successfully''),
                            (''timestamp'', JStr now),
                            (''data'', results),
                            (''search'', JObj
                               [(''query'', or_else query (JStr [])),
                                (''filters'', or_else filters (JObj [])),
                                (''totalResults'', JNum (JsInt (js_length results)))]),
                            (''pagination'', JObj
                               [(''page'', or_else (JNum (JsInt (pg_page pagination))) (JNum (JsInt 1))),
                                (''limit'', or_else (JNum (JsInt (pg_limit pagination))) (JNum (JsInt 10))),
                                (''total'', or_else (JNum (JsInt (int (pg_total pagination))))
                                              (JNum (JsInt (js_length results)))),
                                (''pages'', or_else (JNum (pg_pages pagination)) (JNum (JsInt 1)))])])]"

section \<open>HTTP responses\<close>

text \<open>
  What a controller leaves on the Express response: the status (200 unless
  \<^verbatim>\<open>res.status\<close> was called) and the object given to \<^verbatim>\<open>res.json\<close>.
\<close>

record http_response =
  status :: int
  body :: jsval

definition res_json :: "jsval \<Rightarrow> http_response" where
  "res_json v = \<lparr>status = 200, body = v\<rparr>"

definition res_status_json :: "int \<Rightarrow> jsval \<Rightarrow> http_response" where
  "res_status_json c v = \<lparr>status = c, body = v\<rparr>"

section \<open>List and search controllers\<close>

text \<open>
  The list controllers build one query and await it. The store is an external service,
  so what the awaited query gives back is an input of the model: the promise rejects
  with an error whose message is given, or it resolves to the usual triple of rows,
  error and exact count. The query values \<^verbatim>\<open>page\<close> and \<^verbatim>\<open>limit\<close> have
  passed the route's integer validation and are taken with their numeric value;
  an absent one gets the default of the destructuring pattern.
\<close>

record list_result =
  lr_data :: jsval
  lr_error :: "string option"
  lr_count :: "nat option"

datatype list_outcome = Rejected string | Fulfilled list_result

record list_query =
  q_page :: "int option"
  q_limit :: "int option"

definition page_of :: "list_query \<Rightarrow> int" where
  "page_of q = (case q_page q of None \<Rightarrow> 1 | Some p \<Rightarrow> p)"

definition limit_of :: "list_query \<Rightarrow> int" where
  "limit_of q = (case q_limit q of None \<Rightarrow> 10 | Some l \<Rightarrow> l)"

definition count_or_zero :: "nat option \<Rightarrow> nat" where
  "count_or_zero c = (case c of None \<Rightarrow> 0 | Some n \<Rightarrow> n)"

definition getAllProjects :: "string \<Rightarrow> list_query \<Rightarrow> list_outcome \<Rightarrow> http_response" where
  "getAllProjects now q outcome =
     (case outcome of
        Rejected msg \<Rightarrow>
          res_status_json 500 (sendError now ''Failed to fetch projects'' 500 (JStr msg))
      | Fulfilled r \<Rightarrow>
          (if lr_error r \<noteq> None
           then res_status_json 500 (sendError now ''Failed to fetch projects'' 500 JNull)
           else
             (let tot = count_or_zero (lr_count r);
                  totalPages = math_ceil_div tot (limit_of q);
                  pagination = \<lparr>pg_page = page_of q, pg_limit = limit_of q, pg_total = tot,
                                pg_pages = totalPages,
                                pg_hasNext = js_less (page_of q) totalPages,
                                pg_hasPrev = (page_of q > 1)\<rparr>
              in res_json (sendPaginatedResponse now (or_else (lr_data r) (JArr []))
                             pagination ''Projects retrieved successfully''))))"

definition searchProjects :: "string \<Rightarrow> string \<Rightarrow> list_query \<Rightarrow> list_outcome \<Rightarrow> http_response" where
  "searchProjects now query q outcome =
     (case outcome of
        Rejected msg \<Rightarrow>
          res_status_json 500 (sendError now ''Search failed'' 500 (JStr msg))
      | Fulfilled r \<Rightarrow>
          (if lr_error r \<noteq> None
           then res_status_json 500 (sendError now ''Search failed'' 500 JNull)
           else
             (let tot = count_or_zero (lr_count r);
                  totalPages = math_ceil_div tot (limit_of q);
                  pagination = \<lparr>pg_page = page_of q, pg_limit = limit_of q, pg_total = tot,
                                pg_pages = totalPages,
                                pg_hasNext = js_less (page_of q) totalPages,
                                pg_hasPrev = (page_of q > 1)\<rparr>
              in res_json (sendSearchResponse now (or_else (lr_data r) (JArr []))
                             (JStr query) JNull pagination))))"




section \<open>Strings\<close>

text \<open>
  \<^verbatim>\<open>s.split(c)\<close> for a one-character separator: the result is never empty.
\<close>

fun split_on :: "char \<Rightarrow> string \<Rightarrow> string list" where
  "split_on c [] = [[]]"
| "split_on c (x # xs) =
     (if x = c then [] # split_on c xs
      else (case split_on c xs of [] \<Rightarrow> [[x]] | y # ys \<Rightarrow> (x # y) # ys))"

text \<open>\<^verbatim>\<open>s.includes(sub)\<close>.\<close>

fun starts_with :: "string \<Rightarrow> string \<Rightarrow> bool" where
  "starts_with s [] = True"
| "starts_with [] (c # cs) = False"
| "starts_with (x # xs) (c # cs) = (x = c \<and> starts_with xs cs)"

fun js_includes :: "string \<Rightarrow> string \<Rightarrow> bool" where
  "js_includes [] sub = (sub = [])"
| "js_includes (x # xs) sub = (starts_with (x # xs) sub \<or> js_includes xs sub)"

text \<open>
  \<^verbatim>\<open>s.trim()\<close>: white space and line terminators are removed at both ends. A
  string is its sequence of UTF-8 bytes, so a white-space character is the byte
  sequence that encodes it: the six ASCII ones, U+00A0, U+1680, U+2000 to U+200A,
  U+2028, U+2029, U+202F, U+205F, U+3000 and U+FEFF.
\<close>

definition white_space :: "string list" where
  "white_space =
     [[CHR 0x09], [CHR 0x0A], [CHR 0x0B], [CHR 0x0C], [CHR 0x0D], [CHR 0x20],
      [CHR 0xC2, CHR 0xA0],
      [CHR 0xE1, CHR 0x9A, CHR 0x80],
      [CHR 0xE2, CHR 0x80, CHR 0x80], [CHR 0xE2, CHR 0x80, CHR 0x81],
      [CHR 0xE2, CHR 0x80, CHR 0x82], [CHR 0xE2, CHR 0x80, CHR 0x83],
      [CHR 0xE2, CHR 0x80, CHR 0x84], [CHR 0xE2, CHR 0x80, CHR 0x85],
      [CHR 0xE2, CHR 0x80, CHR 0x86], [CHR 0xE2, CHR 0x80, CHR 0x87],
      [CHR 0xE2, CHR 0x80, CHR 0x88], [CHR 0xE2, CHR 0x80, CHR 0x89],
      [CHR 0xE2, CHR 0x80, CHR 0x8A],
      [CHR 0xE2, CHR 0x80, CHR 0xA8], [CHR 0xE2, CHR 0x80, CHR 0xA9],
      [CHR 0xE2, CHR 0x80, CHR 0xAF],
      [CHR 0xE2, CHR 0x81, CHR 0x9F],
      [CHR 0xE3, CHR 0x80, CHR 0x80],
      [CHR 0xEF, CHR 0xBB, CHR 0xBF]]"

text \<open>The rest of \<open>s\<close> after the first of the sequences that it starts with.\<close>

fun strip_one :: "string list \<Rightarrow> string \<Rightarrow> string option" where
  "strip_one [] s = None"
| "strip_one (w # ws) s =
     (if w \<noteq> [] \<and> starts_with s w then Some (drop (length w) s) else strip_one ws s)"

function trim_start :: "string list \<Rightarrow> string \<Rightarrow> string" where
  "trim_start ws s = (case strip_one ws s of None \<Rightarrow> s | Some r \<Rightarrow> trim_start ws r)"
  by pat_completeness auto
termination
proof (relation "measure (\<lambda>(ws, s). length s)")
  show "wf (measure (\<lambda>(ws, s). length s))" by simp
next
  fix ws :: "string list" and s r :: string
  assume "strip_one ws s = Some r"
  then have "length r < length s"
  proof (induction ws)
    case Nil
    then show ?case by simp
  next
    case (Cons w ws)
    show ?case
    proof (cases "w \<noteq> [] \<and> starts_with s w")
      case True
      then have "s \<noteq> []" by (cases s; cases w) simp_all
      moreover have "r = drop (length w) s" using Cons.prems True by simp
      ultimately show ?thesis using True by simp
    next
      case False
      then show ?thesis using Cons by (simp split: if_splits)
    qed
  qed
  then show "((ws, r), (ws, s)) \<in> measure (\<lambda>(ws, s). length s)" by simp
qed

definition js_trim :: "string \<Rightarrow> string" where
  "js_trim s = rev (trim_start (map rev white_space) (rev (trim_start white_space s)))"

section \<open>Request fields\<close>

text \<open>
  A property of a request body is \<^verbatim>\<open>undefined\<close> (left out), \<^verbatim>\<open>null\<close>, or
  a value.
\<close>

datatype 'a field = Undefined | Null | Val 'a

text \<open>
  Dates. A truthy value that \<^verbatim>\<open>new Date\<close> can read is an instant, in
  milliseconds since the epoch; any other truthy value gives an invalid date. A value
  that is falsy (the number 0, the empty string, \<^verbatim>\<open>false\<close>) comes with what
  \<^verbatim>\<open>new Date\<close> reads from it: the epoch for 0 and \<^verbatim>\<open>false\<close>, an invalid
  date for the empty string. A \<^verbatim>\<open>DATE\<close> column holds a day number, and
  \<^verbatim>\<open>new Date\<close> reads it back as that day's midnight (UTC).
\<close>

datatype date_val = Instant int | InvalidDate | Falsy "int option"

definition ms_per_day :: int where
  "ms_per_day = 86400000"

text \<open>
  \<^verbatim>\<open>new Date(x)\<close>: the time value, or \<open>None\<close> for an invalid date.
  \<^verbatim>\<open>new Date(null)\<close> is the epoch, \<^verbatim>\<open>new Date(undefined)\<close> is invalid.
\<close>

fun new_Date :: "date_val field \<Rightarrow> int option" where
  "new_Date Undefined = None"
| "new_Date Null = Some 0"
| "new_Date (Val (Instant t)) = Some t"
| "new_Date (Val InvalidDate) = None"
| "new_Date (Val (Falsy t)) = t"

text \<open>\<^verbatim>\<open>a <= b\<close> on two dates: false as soon as one of them is invalid.\<close>

fun date_le :: "int option \<Rightarrow> int option \<Rightarrow> bool" where
  "date_le (Some a) (Some b) = (a \<le> b)"
| "date_le a b = False"

text \<open>
  \<^verbatim>\<open>d.toISOString().split('T')[0]\<close>: the day of the instant, or a thrown
  \<^verbatim>\<open>RangeError\<close> for an invalid date.
\<close>

fun iso_day :: "int option \<Rightarrow> string + int" where
  "iso_day None = Inl ''Invalid time value''"
| "iso_day (Some t) = Inr (t div ms_per_day)"

fun field_truthy :: "date_val field \<Rightarrow> bool" where
  "field_truthy (Val (Instant t)) = True"
| "field_truthy (Val InvalidDate) = True"
| "field_truthy f = False"

definition stored_day :: "int \<Rightarrow> date_val field" where
  "stored_day d = Val (Instant (d * ms_per_day))"

definition stored_day_opt :: "int option \<Rightarrow> date_val field" where
  "stored_day_opt d = (case d of None \<Rightarrow> Null | Some x \<Rightarrow> stored_day x)"

section \<open>The external services\<close>

text \<open>
  The relational store and the blob store are services outside the repository. The
  model keeps their content (the three tables and the names in the image bucket) and,
  for reasoning about order, the sequence of calls a request makes. What the services
  answer beyond that is an input: whether a look-up, a write or an upload reports an
  error, the identifier the store gives a new row, the UUID drawn for a file name, the
  public URL the blob store derives from a name, and Node's \<^verbatim>\<open>path.extname\<close>.
  The look-ups of one request are numbered from 0 in the order the controller makes
  them.
\<close>

datatype event =
    StoreSelect string
  | StoreInsert string
  | StoreUpdate string
  | BlobUpload string
  | BlobRemove string
  | ConsoleError string

record project =
  p_id :: nat
  p_name :: string
  p_details :: string
  p_image_url :: "string option"
  p_skills :: "string list"
  p_demo_link :: "string option"
  p_github_link :: "string option"

record certification =
  c_id :: nat
  c_title :: string
  c_issuer :: string
  c_issued_date :: int
  c_certification_id :: "string option"
  c_details :: "string option"
  c_link_url :: "string option"

record journey_item =
  j_id :: nat
  j_title :: string
  j_company_name :: string
  j_start_date :: int
  j_end_date :: "int option"
  j_details :: string
  j_journey_type :: string

record backend =
  projects :: "project list"
  certifications :: "certification list"
  journey_items :: "journey_item list"
  blobs :: "string list"
  trace :: "event list"

record services =
  sv_now :: string
  sv_uuid :: string
  sv_extname :: "string \<Rightarrow> string"
  sv_public_url :: "string \<Rightarrow> string"
  sv_upload_error :: "string option"
  sv_remove_error :: "string \<Rightarrow> string option"
  sv_select_error :: "nat \<Rightarrow> string option"
  sv_write_error :: "string option"
  sv_new_id :: nat

definition emit :: "event \<Rightarrow> backend \<Rightarrow> backend" where
  "emit e st = st\<lparr>trace := trace st @ [e]\<rparr>"

text \<open>
  \<^verbatim>\<open>.single()\<close>: the row when the filters match exactly one row; no data when
  they match none or several.
\<close>

definition single :: "'a list \<Rightarrow> 'a option" where
  "single rows = (case rows of [r] \<Rightarrow> Some r | _ \<Rightarrow> None)"

text \<open>
  \<^verbatim>\<open>const { data: x } = await ... .single()\<close>, the look-up number \<open>k\<close> of a
  request, on the rows its filters match: the controllers take the data and drop the
  error, so a look-up that fails gives no data, like one that matches nothing.
\<close>

definition select_single :: "services \<Rightarrow> nat \<Rightarrow> 'a list \<Rightarrow> 'a option" where
  "select_single sv k rows =
     (case sv_select_error sv k of Some msg \<Rightarrow> None | None \<Rightarrow> single rows)"

fun opt_json :: "string option \<Rightarrow> jsval" where
  "opt_json None = JNull"
| "opt_json (Some s) = JStr s"

definition project_json :: "project \<Rightarrow> jsval" where
  "project_json p =
     JObj [(''id'', JNum (JsInt (int (p_id p)))),
           (''name'', JStr (p_name p)),
           (''details'', JStr (p_details p)),
           (''image_url'', opt_json (p_image_url p)),
           (''skills'', JArr (map JStr (p_skills p))),
           (''demo_link'', opt_json (p_demo_link p)),
           (''github_link'', opt_json (p_github_link p))]"

section \<open>Image storage (middleware/upload.js)\<close>

record upload_file =
  f_fieldname :: string
  f_originalname :: string
  f_mimetype :: string
  f_size :: nat

record upload_result =
  ur_fileName :: string
  ur_publicUrl :: string
  ur_originalName :: string
  ur_size :: nat
  ur_mimetype :: string

definition generated_name :: "services \<Rightarrow> upload_file \<Rightarrow> string" where
  "generated_name sv f = sv_uuid sv @ sv_extname sv (f_originalname f)"

text \<open>
  \<^verbatim>\<open>uploadToSupabaseStorage\<close>. With \<^verbatim>\<open>upsert: false\<close> the blob store
  refuses a name it already holds. A refusal is logged and thrown (\<open>Inl\<close>).
\<close>

definition uploadToSupabaseStorage ::
    "services \<Rightarrow> backend \<Rightarrow> upload_file \<Rightarrow> (string + upload_result) \<times> backend" where
  "uploadToSupabaseStorage sv st f =
     (let fileName = generated_name sv f;
          st1 = emit (BlobUpload fileName) st;
          error = (if fileName \<in> set (blobs st1) then Some ''The resource already exists''
                   else sv_upload_error sv)
      in case error of
           Some msg \<Rightarrow>
             (Inl (''Upload failed: '' @ msg),
              emit (ConsoleError ''Supabase Storage upload error:'') st1)
         | None \<Rightarrow>
             (Inr \<lparr>ur_fileName = fileName, ur_publicUrl = sv_public_url sv fileName,
                   ur_originalName = f_originalname f, ur_size = f_size f,
                   ur_mimetype = f_mimetype f\<rparr>,
              st1\<lparr>blobs := blobs st1 @ [fileName]\<rparr>))"

definition deleteFromSupabaseStorage ::
    "services \<Rightarrow> backend \<Rightarrow> string \<Rightarrow> (string + bool) \<times> backend" where
  "deleteFromSupabaseStorage sv st fileName =
     (let st1 = emit (BlobRemove fileName) st
      in case sv_remove_error sv fileName of
           Some msg \<Rightarrow>
             (Inl (''Delete failed: '' @ msg),
              emit (ConsoleError ''Supabase Storage delete error:'') st1)
         | None \<Rightarrow> (Inr True, st1\<lparr>blobs := filter (\<lambda>n. n \<noteq> fileName) (blobs st1)\<rparr>))"

section \<open>Projects (controllers/projectsController.js)\<close>

definition extractFilenameFromUrl :: "string \<Rightarrow> string" where
  "extractFilenameFromUrl url = last (split_on CHR ''/'' url)"

text \<open>
  The block the create and the update controller both run when the write has failed
  after an upload: if the URL is non-empty and its last segment is non-empty, delete
  that name; a failure of the deletion is caught and logged under \<open>label\<close>.
\<close>

definition delete_by_url :: "services \<Rightarrow> backend \<Rightarrow> string \<Rightarrow> string \<Rightarrow> backend" where
  "delete_by_url sv st url label =
     (let fileName = extractFilenameFromUrl url
      in if fileName \<noteq> []
         then (case deleteFromSupabaseStorage sv st fileName of
                 (Inl msg, st1) \<Rightarrow> emit (ConsoleError label) st1
               | (Inr ok, st1) \<Rightarrow> st1)
         else st)"

datatype skills_field = SkillsUndefined | SkillsArray "string list" | SkillsNotArray

fun skills_or_empty :: "skills_field \<Rightarrow> string list" where
  "skills_or_empty (SkillsArray xs) = xs"
| "skills_or_empty s = []"

text \<open>\<^verbatim>\<open>link || null\<close> on an optional string.\<close>

fun string_or_null :: "string field \<Rightarrow> string option" where
  "string_or_null (Val s) = (if s = [] then None else Some s)"
| "string_or_null f = None"

text \<open>
  The body of a create request. The controller reads \<^verbatim>\<open>name\<close> and
  \<^verbatim>\<open>details\<close> as they come; the model takes them as strings.
\<close>

record create_project_body =
  cb_name :: string
  cb_details :: string
  cb_skills :: skills_field
  cb_demo_link :: "string field"
  cb_github_link :: "string field"

definition insert_project :: "services \<Rightarrow> backend \<Rightarrow> project \<Rightarrow> (string + project) \<times> backend" where
  "insert_project sv st projectData =
     (let st1 = emit (StoreInsert ''projects'') st
      in case sv_write_error sv of
           Some msg \<Rightarrow> (Inl msg, st1)
         | None \<Rightarrow>
             (let row = projectData\<lparr>p_id := sv_new_id sv\<rparr>
              in (Inr row, st1\<lparr>projects := projects st1 @ [row]\<rparr>)))"

text \<open>\<^verbatim>\<open>createProject\<close> from the insert on (the source's lines 157 to 195).\<close>

definition createProject_persist ::
    "services \<Rightarrow> backend \<Rightarrow> create_project_body \<Rightarrow> string option \<Rightarrow> http_response \<times> backend" where
  "createProject_persist sv st b image_url =
     (let projectData = \<lparr>p_id = 0, p_name = cb_name b, p_details = cb_details b,
                          p_image_url = image_url,
                          p_skills = skills_or_empty (cb_skills b),
                          p_demo_link = string_or_null (cb_demo_link b),
                          p_github_link = string_or_null (cb_github_link b)\<rparr>
      in case insert_project sv st projectData of
           (Inl err, st1) \<Rightarrow>
             (let st2 = (case image_url of
                           None \<Rightarrow> st1
                         | Some url \<Rightarrow>
                             (if url \<noteq> []
                              then delete_by_url sv st1 url ''Failed to cleanup uploaded image:''
                              else st1))
              in (res_status_json 500 (sendError (sv_now sv) ''Failed to create project'' 500 JNull),
                  emit (ConsoleError ''Supabase error:'') st2))
         | (Inr row, st1) \<Rightarrow>
             (res_status_json 201
                (sendSuccess (sv_now sv) (project_json row) ''Project created successfully'' 201),
              st1))"

definition createProject ::
    "services \<Rightarrow> backend \<Rightarrow> create_project_body \<Rightarrow> upload_file option
       \<Rightarrow> http_response \<times> backend" where
  "createProject sv st b uploadedFile =
     (let st1 = emit (StoreSelect ''projects'') st;
          existingProject =
            select_single sv 0 (filter (\<lambda>p. p_name p = cb_name b) (projects st1))
      in if existingProject \<noteq> None
         then (res_status_json 400
                 (sendError (sv_now sv) ''Project with this name already exists'' 400 JNull),
               st1)
         else
           (case uploadedFile of
              None \<Rightarrow> createProject_persist sv st1 b None
            | Some f \<Rightarrow>
                (case uploadToSupabaseStorage sv st1 f of
                   (Inl uploadError, st2) \<Rightarrow>
                     (res_status_json 400
                        (sendError (sv_now sv)
                           ''Failed to upload image. Please ensure the file is a valid image and under 10MB.''
                           400 JNull),
                      emit (ConsoleError ''Image upload error:'') st2)
                 | (Inr uploadResult, st2) \<Rightarrow>
                     createProject_persist sv st2 b (Some (ur_publicUrl uploadResult)))))"

text \<open>
  The body of an update request: every property may be left out. Calling
  \<^verbatim>\<open>trim\<close> on \<^verbatim>\<open>null\<close> throws a \<^verbatim>\<open>TypeError\<close>, which the
  controller's outer \<^verbatim>\<open>catch\<close> turns into a 500 response.
\<close>

record update_project_body =
  ub_name :: "string field"
  ub_details :: "string field"
  ub_skills :: skills_field
  ub_demo_link :: "string field"
  ub_github_link :: "string field"

text \<open>
  \<^verbatim>\<open>if (x !== undefined) updateData.x = x.trim()\<close>: nothing to set, a thrown
  error, or the trimmed value.
\<close>

fun trim_required :: "string field \<Rightarrow> string + string option" where
  "trim_required Undefined = Inr None"
| "trim_required Null =
     Inl (''Cannot read properties of null (reading '' @ [CHR 0x27] @ ''trim'' @ [CHR 0x27] @ '')'')"
| "trim_required (Val s) = Inr (Some (js_trim s))"

text \<open>\<^verbatim>\<open>if (x !== undefined) updateData.x = x?.trim() || null\<close>.\<close>

fun trim_optional :: "string field \<Rightarrow> string option option" where
  "trim_optional Undefined = None"
| "trim_optional Null = Some None"
| "trim_optional (Val s) = Some (if js_trim s = [] then None else Some (js_trim s))"

fun skills_update :: "skills_field \<Rightarrow> string list option" where
  "skills_update SkillsUndefined = None"
| "skills_update (SkillsArray xs) = Some xs"
| "skills_update SkillsNotArray = Some []"

record project_update =
  pu_name :: "string option"
  pu_details :: "string option"
  pu_skills :: "string list option"
  pu_demo_link :: "string option option"
  pu_github_link :: "string option option"
  pu_image_url :: "string option option"

definition or_keep :: "'a option \<Rightarrow> 'a \<Rightarrow> 'a" where
  "or_keep new old = (case new of None \<Rightarrow> old | Some v \<Rightarrow> v)"

definition apply_project_update :: "project_update \<Rightarrow> project \<Rightarrow> project" where
  "apply_project_update u p =
     p\<lparr>p_name := or_keep (pu_name u) (p_name p),
       p_details := or_keep (pu_details u) (p_details p),
       p_skills := or_keep (pu_skills u) (p_skills p),
       p_demo_link := or_keep (pu_demo_link u) (p_demo_link p),
       p_github_link := or_keep (pu_github_link u) (p_github_link p),
       p_image_url := or_keep (pu_image_url u) (p_image_url p)\<rparr>"

definition update_project_row ::
    "services \<Rightarrow> backend \<Rightarrow> nat \<Rightarrow> project \<Rightarrow> project_update \<Rightarrow> (string + project) \<times> backend" where
  "update_project_row sv st ident existing u =
     (let st1 = emit (StoreUpdate ''projects'') st
      in case sv_write_error sv of
           Some msg \<Rightarrow> (Inl msg, st1)
         | None \<Rightarrow>
             (Inr (apply_project_update u existing),
              st1\<lparr>projects := map (\<lambda>p. if p_id p = ident then apply_project_update u p else p)
                                  (projects st1)\<rparr>))"

text \<open>
  \<^verbatim>\<open>updateProject\<close> from the preparation of the update data on (the source's
  lines 270 to 309). \<open>uploaded\<close> says whether the request carried a file.
\<close>

definition updateProject_persist ::
    "services \<Rightarrow> backend \<Rightarrow> nat \<Rightarrow> project \<Rightarrow> update_project_body \<Rightarrow> bool \<Rightarrow> string option
       \<Rightarrow> http_response \<times> backend" where
  "updateProject_persist sv st ident existing b uploaded image_url =
     (case trim_required (ub_name b) of
        Inl msg \<Rightarrow>
          (res_status_json 500 (sendError (sv_now sv) ''Failed to update project'' 500 (JStr msg)),
           emit (ConsoleError ''Update project error:'') st)
      | Inr name' \<Rightarrow>
     (case trim_required (ub_details b) of
        Inl msg \<Rightarrow>
          (res_status_json 500 (sendError (sv_now sv) ''Failed to update project'' 500 (JStr msg)),
           emit (ConsoleError ''Update project error:'') st)
      | Inr details' \<Rightarrow>
          (let updateData = \<lparr>pu_name = name', pu_details = details',
                              pu_skills = skills_update (ub_skills b),
                              pu_demo_link = trim_optional (ub_demo_link b),
                              pu_github_link = trim_optional (ub_github_link b),
                              pu_image_url = Some image_url\<rparr>
           in case update_project_row sv st ident existing updateData of
                (Inl err, st1) \<Rightarrow>
                  (let st2 = (case image_url of
                                None \<Rightarrow> st1
                              | Some url \<Rightarrow>
                                  (if uploaded \<and> url \<noteq> []
                                   then delete_by_url sv st1 url
                                          ''Failed to cleanup uploaded image:''
                                   else st1))
                   in (res_status_json 500
                         (sendError (sv_now sv) ''Failed to update project'' 500 JNull),
                       emit (ConsoleError ''Supabase error:'') st2))
              | (Inr row, st1) \<Rightarrow>
                  (res_json (sendSuccess (sv_now sv) (project_json row)
                               ''Project updated successfully'' 200),
                   st1))))"

text \<open>
  The block \<^verbatim>\<open>// Delete old image if it exists\<close> of \<^verbatim>\<open>updateProject\<close>
  (the source's lines 251 to 261); a failure of the deletion is caught and logged.
\<close>

definition delete_old_image :: "services \<Rightarrow> backend \<Rightarrow> project \<Rightarrow> backend" where
  "delete_old_image sv st existing =
     (case p_image_url existing of
        None \<Rightarrow> st
      | Some old \<Rightarrow>
          (if old \<noteq> [] then delete_by_url sv st old ''Failed to delete old image:'' else st))"

text \<open>
  \<^verbatim>\<open>updateProject\<close> from the image handling on (the source's lines 240 to 268,
  then the rest): the new file is stored, and right then the old image is deleted.
\<close>

definition updateProject_image ::
    "services \<Rightarrow> backend \<Rightarrow> nat \<Rightarrow> project \<Rightarrow> update_project_body \<Rightarrow> upload_file option
       \<Rightarrow> http_response \<times> backend" where
  "updateProject_image sv st ident existing b uploadedFile =
     (case uploadedFile of
        None \<Rightarrow> updateProject_persist sv st ident existing b False (p_image_url existing)
      | Some f \<Rightarrow>
          (case uploadToSupabaseStorage sv st f of
             (Inl uploadError, st1) \<Rightarrow>
               (res_status_json 400
                  (sendError (sv_now sv)
                     ''Failed to upload image. Please ensure the file is a valid image and under 10MB.''
                     400 JNull),
                emit (ConsoleError ''Image upload error:'') st1)
           | (Inr uploadResult, st1) \<Rightarrow>
               updateProject_persist sv (delete_old_image sv st1 existing) ident existing b True
                 (Some (ur_publicUrl uploadResult))))"

fun string_truthy :: "string field \<Rightarrow> bool" where
  "string_truthy (Val s) = (s \<noteq> [])"
| "string_truthy f = False"

fun string_of :: "string field \<Rightarrow> string" where
  "string_of (Val s) = s"
| "string_of f = []"

definition updateProject ::
    "services \<Rightarrow> backend \<Rightarrow> nat \<Rightarrow> update_project_body \<Rightarrow> upload_file option
       \<Rightarrow> http_response \<times> backend" where
  "updateProject sv st ident b uploadedFile =
     (let st1 = emit (StoreSelect ''projects'') st
      in case select_single sv 0 (filter (\<lambda>p. p_id p = ident) (projects st1)) of
           None \<Rightarrow>
             (res_status_json 404 (sendError (sv_now sv) ''Project not found'' 404 JNull), st1)
         | Some existingProject \<Rightarrow>
             (if string_truthy (ub_name b) \<and> string_of (ub_name b) \<noteq> p_name existingProject
              then
                (let st2 = emit (StoreSelect ''projects'') st1;
                     nameConflict =
                       select_single sv 1 (filter (\<lambda>p. p_name p = string_of (ub_name b)
                                                       \<and> p_id p \<noteq> ident) (projects st2))
                 in if nameConflict \<noteq> None
                    then (res_status_json 400
                            (sendError (sv_now sv) ''Project with this name already exists'' 400 JNull),
                          st2)
                    else updateProject_image sv st2 ident existingProject b uploadedFile)
              else updateProject_image sv st1 ident existingProject b uploadedFile))"

section \<open>Certifications (controllers/certificationsController.js)\<close>

definition day_json :: "int \<Rightarrow> jsval" where
  "day_json d = JNum (JsInt d)"

definition certification_json :: "certification \<Rightarrow> jsval" where
  "certification_json c =
     JObj [(''id'', JNum (JsInt (int (c_id c)))),
           (''title'', JStr (c_title c)),
           (''issuer'', JStr (c_issuer c)),
           (''issued_date'', day_json (c_issued_date c)),
           (''certification_id'', opt_json (c_certification_id c)),
           (''details'', opt_json (c_details c)),
           (''link_url'', opt_json (c_link_url c))]"

record update_certification_body =
  uc_title :: "string field"
  uc_issuer :: "string field"
  uc_issued_date :: "date_val field"
  uc_certification_id :: "string field"
  uc_details :: "string field"
  uc_link_url :: "string field"

text \<open>
  \<^verbatim>\<open>if (d !== undefined) updateData.d = new Date(d).toISOString().split('T')[0]\<close>.
\<close>

definition date_update :: "date_val field \<Rightarrow> string + int option" where
  "date_update d =
     (if d = Undefined then Inr None
      else (case iso_day (new_Date d) of Inl msg \<Rightarrow> Inl msg | Inr day \<Rightarrow> Inr (Some day)))"

record certification_update =
  cu_title :: "string option"
  cu_issuer :: "string option"
  cu_issued_date :: "int option"
  cu_certification_id :: "string option option"
  cu_details :: "string option option"
  cu_link_url :: "string option option"

definition apply_certification_update :: "certification_update \<Rightarrow> certification \<Rightarrow> certification" where
  "apply_certification_update u c =
     c\<lparr>c_title := or_keep (cu_title u) (c_title c),
       c_issuer := or_keep (cu_issuer u) (c_issuer c),
       c_issued_date := or_keep (cu_issued_date u) (c_issued_date c),
       c_certification_id := or_keep (cu_certification_id u) (c_certification_id c),
       c_details := or_keep (cu_details u) (c_details c),
       c_link_url := or_keep (cu_link_url u) (c_link_url c)\<rparr>"

definition update_certification_row ::
    "services \<Rightarrow> backend \<Rightarrow> nat \<Rightarrow> certification \<Rightarrow> certification_update
       \<Rightarrow> (string + certification) \<times> backend" where
  "update_certification_row sv st ident existing u =
     (let st1 = emit (StoreUpdate ''certifications'') st
      in case sv_write_error sv of
           Some msg \<Rightarrow> (Inl msg, st1)
         | None \<Rightarrow>
             (Inr (apply_certification_update u existing),
              st1\<lparr>certifications :=
                    map (\<lambda>c. if c_id c = ident then apply_certification_update u c else c)
                      (certifications st1)\<rparr>))"

definition certification_threw :: "services \<Rightarrow> backend \<Rightarrow> string \<Rightarrow> http_response \<times> backend" where
  "certification_threw sv st msg =
     (res_status_json 500 (sendError (sv_now sv) ''Failed to update certification'' 500 (JStr msg)),
      emit (ConsoleError ''Update certification error:'') st)"

text \<open>
  \<^verbatim>\<open>updateCertification\<close> from the preparation of the update data on (the
  source's lines 209 to 237).
\<close>

definition updateCertification_persist ::
    "services \<Rightarrow> backend \<Rightarrow> nat \<Rightarrow> certification \<Rightarrow> update_certification_body
       \<Rightarrow> http_response \<times> backend" where
  "updateCertification_persist sv st ident existing b =
     (case trim_required (uc_title b) of
        Inl msg \<Rightarrow> certification_threw sv st msg
      | Inr title' \<Rightarrow>
     (case trim_required (uc_issuer b) of
        Inl msg \<Rightarrow> certification_threw sv st msg
      | Inr issuer' \<Rightarrow>
     (case date_update (uc_issued_date b) of
        Inl msg \<Rightarrow> certification_threw sv st msg
      | Inr issued' \<Rightarrow>
          (let updateData = \<lparr>cu_title = title', cu_issuer = issuer', cu_issued_date = issued',
                              cu_certification_id = trim_optional (uc_certification_id b),
                              cu_details = trim_optional (uc_details b),
                              cu_link_url = trim_optional (uc_link_url b)\<rparr>
           in case update_certification_row sv st ident existing updateData of
                (Inl err, st1) \<Rightarrow>
                  (res_status_json 500
                     (sendError (sv_now sv) ''Failed to update certification'' 500 JNull),
                   emit (ConsoleError ''Supabase error:'') st1)
              | (Inr row, st1) \<Rightarrow>
                  (res_json (sendSuccess (sv_now sv) (certification_json row)
                               ''Certification updated successfully'' 200),
                   st1)))))"

definition updateCertification ::
    "services \<Rightarrow> backend \<Rightarrow> nat \<Rightarrow> update_certification_body \<Rightarrow> http_response \<times> backend" where
  "updateCertification sv st ident b =
     (let st1 = emit (StoreSelect ''certifications'') st
      in case select_single sv 0 (filter (\<lambda>c. c_id c = ident) (certifications st1)) of
           None \<Rightarrow>
             (res_status_json 404 (sendError (sv_now sv) ''Certification not found'' 404 JNull),
              st1)
         | Some existingCertification \<Rightarrow>
             (if string_truthy (uc_title b) \<and> string_truthy (uc_issuer b)
                 \<and> (string_of (uc_title b) \<noteq> c_title existingCertification
                      \<or> string_of (uc_issuer b) \<noteq> c_issuer existingCertification)
              then
                (let st2 = emit (StoreSelect ''certifications'') st1;
                     duplicateCertification =
                       select_single sv 1
                         (filter (\<lambda>c. c_title c = string_of (uc_title b)
                                          \<and> c_issuer c = string_of (uc_issuer b)
                                          \<and> c_id c \<noteq> ident) (certifications st2))
                 in if duplicateCertification \<noteq> None
                    then (res_status_json 400
                            (sendError (sv_now sv)
                               ''Certification with this title and issuer already exists'' 400 JNull),
                          st2)
                    else updateCertification_persist sv st2 ident existingCertification b)
              else updateCertification_persist sv st1 ident existingCertification b))"

section \<open>Journey items (controllers/journeyController.js, database/schema.sql)\<close>

definition opt_day_json :: "int option \<Rightarrow> jsval" where
  "opt_day_json d = (case d of None \<Rightarrow> JNull | Some x \<Rightarrow> day_json x)"

definition journey_json :: "journey_item \<Rightarrow> jsval" where
  "journey_json j =
     JObj [(''id'', JNum (JsInt (int (j_id j)))),
           (''title'', JStr (j_title j)),
           (''company_name'', JStr (j_company_name j)),
           (''start_date'', day_json (j_start_date j)),
           (''end_date'', opt_day_json (j_end_date j)),
           (''details'', JStr (j_details j)),
           (''journey_type'', JStr (j_journey_type j))]"

text \<open>
  The view \<^verbatim>\<open>journey_items_view\<close> of the schema: the columns of the row, and
  \<^verbatim>\<open>CASE WHEN end_date IS NULL THEN true ELSE false END as is_current\<close>.
\<close>

definition journey_items_view :: "journey_item \<Rightarrow> jsval" where
  "journey_items_view j =
     JObj [(''id'', JNum (JsInt (int (j_id j)))),
           (''title'', JStr (j_title j)),
           (''company_name'', JStr (j_company_name j)),
           (''start_date'', day_json (j_start_date j)),
           (''end_date'', opt_day_json (j_end_date j)),
           (''details'', JStr (j_details j)),
           (''journey_type'', JStr (j_journey_type j)),
           (''is_current'', JBool (case j_end_date j of None \<Rightarrow> True | Some d \<Rightarrow> False))]"

text \<open>The \<^verbatim>\<open>CHECK\<close> constraint of the column \<^verbatim>\<open>journey_type\<close>.\<close>

definition journey_type_ok :: "string \<Rightarrow> bool" where
  "journey_type_ok t = (t \<in> set [''Experience'', ''Education'', ''Volunteer''])"

record create_journey_body =
  cj_title :: string
  cj_company_name :: string
  cj_start_date :: "date_val field"
  cj_end_date :: "date_val field"
  cj_details :: string
  cj_journey_type :: string

definition insert_journey ::
    "services \<Rightarrow> backend \<Rightarrow> journey_item \<Rightarrow> (string + journey_item) \<times> backend" where
  "insert_journey sv st journeyItemData =
     (let st1 = emit (StoreInsert ''journey_items'') st;
          error = (if journey_type_ok (j_journey_type journeyItemData) then sv_write_error sv
                   else Some ''violates check constraint'')
      in case error of
           Some msg \<Rightarrow> (Inl msg, st1)
         | None \<Rightarrow>
             (let row = journeyItemData\<lparr>j_id := sv_new_id sv\<rparr>
              in (Inr row, st1\<lparr>journey_items := journey_items st1 @ [row]\<rparr>)))"

definition create_journey_threw :: "services \<Rightarrow> backend \<Rightarrow> string \<Rightarrow> http_response \<times> backend" where
  "create_journey_threw sv st msg =
     (res_status_json 500 (sendError (sv_now sv) ''Failed to create journey item'' 500 (JStr msg)),
      emit (ConsoleError ''Create journey item error:'') st)"

text \<open>
  \<^verbatim>\<open>end_date ? new Date(end_date).toISOString().split('T')[0] : null\<close>.
\<close>

definition end_day :: "date_val field \<Rightarrow> string + int option" where
  "end_day d =
     (if field_truthy d
      then (case iso_day (new_Date d) of Inl msg \<Rightarrow> Inl msg | Inr day \<Rightarrow> Inr (Some day))
      else Inr None)"

definition createJourneyItem ::
    "services \<Rightarrow> backend \<Rightarrow> create_journey_body \<Rightarrow> http_response \<times> backend" where
  "createJourneyItem sv st b =
     (let st1 = emit (StoreSelect ''journey_items'') st;
          existingJourneyItem =
            select_single sv 0
              (filter (\<lambda>j. j_title j = cj_title b \<and> j_company_name j = cj_company_name b)
                 (journey_items st1))
      in if existingJourneyItem \<noteq> None
         then (res_status_json 400
                 (sendError (sv_now sv)
                    ''Journey item with this title and company already exists'' 400 JNull),
               st1)
         else if field_truthy (cj_end_date b)
                 \<and> date_le (new_Date (cj_end_date b)) (new_Date (cj_start_date b))
         then (res_status_json 400
                 (sendError (sv_now sv) ''End date must be after start date'' 400 JNull),
               st1)
         else
           (case iso_day (new_Date (cj_start_date b)) of
              Inl msg \<Rightarrow> create_journey_threw sv st1 msg
            | Inr start' \<Rightarrow>
           (case end_day (cj_end_date b) of
              Inl msg \<Rightarrow> create_journey_threw sv st1 msg
            | Inr end' \<Rightarrow>
                (let journeyItemData =
                       \<lparr>j_id = 0, j_title = js_trim (cj_title b),
                        j_company_name = js_trim (cj_company_name b),
                        j_start_date = start', j_end_date = end',
                        j_details = js_trim (cj_details b),
                        j_journey_type = cj_journey_type b\<rparr>
                 in case insert_journey sv st1 journeyItemData of
                      (Inl err, st2) \<Rightarrow>
                        (res_status_json 500
                           (sendError (sv_now sv) ''Failed to create journey item'' 500 JNull),
                         emit (ConsoleError ''Supabase error:'') st2)
                    | (Inr row, st2) \<Rightarrow>
                        (res_status_json 201
                           (sendSuccess (sv_now sv) (journey_json row)
                              ''Journey item created successfully'' 201),
                         st2)))))"

record update_journey_body =
  uj_title :: "string field"
  uj_company_name :: "string field"
  uj_start_date :: "date_val field"
  uj_end_date :: "date_val field"
  uj_details :: "string field"
  uj_journey_type :: "string field"

text \<open>
  \<^verbatim>\<open>if (end_date !== undefined) updateData.end_date = end_date ? ... : null\<close>.
\<close>

definition end_day_update :: "date_val field \<Rightarrow> string + int option option" where
  "end_day_update d =
     (if d = Undefined then Inr None
      else (case end_day d of Inl msg \<Rightarrow> Inl msg | Inr day \<Rightarrow> Inr (Some day)))"

fun plain_update :: "string field \<Rightarrow> string option option" where
  "plain_update Undefined = None"
| "plain_update Null = Some None"
| "plain_update (Val s) = Some (Some s)"

record journey_update =
  ju_title :: "string option"
  ju_company_name :: "string option"
  ju_start_date :: "int option"
  ju_end_date :: "int option option"
  ju_details :: "string option"
  ju_journey_type :: "string option option"

definition apply_journey_update :: "journey_update \<Rightarrow> journey_item \<Rightarrow> journey_item" where
  "apply_journey_update u j =
     j\<lparr>j_title := or_keep (ju_title u) (j_title j),
       j_company_name := or_keep (ju_company_name u) (j_company_name j),
       j_start_date := or_keep (ju_start_date u) (j_start_date j),
       j_end_date := or_keep (ju_end_date u) (j_end_date j),
       j_details := or_keep (ju_details u) (j_details j),
       j_journey_type := (case ju_journey_type u of
                            Some (Some t) \<Rightarrow> t
                          | _ \<Rightarrow> j_journey_type j)\<rparr>"

text \<open>
  The update of a journey row: the store refuses a \<^verbatim>\<open>null\<close> type (the column is
  \<^verbatim>\<open>NOT NULL\<close>) and a type outside the \<^verbatim>\<open>CHECK\<close> constraint.
\<close>

definition update_journey_row ::
    "services \<Rightarrow> backend \<Rightarrow> nat \<Rightarrow> journey_item \<Rightarrow> journey_update
       \<Rightarrow> (string + journey_item) \<times> backend" where
  "update_journey_row sv st ident existing u =
     (let st1 = emit (StoreUpdate ''journey_items'') st;
          error = (case ju_journey_type u of
                     None \<Rightarrow> sv_write_error sv
                   | Some None \<Rightarrow> Some ''violates not-null constraint''
                   | Some (Some t) \<Rightarrow>
                       (if journey_type_ok t then sv_write_error sv
                        else Some ''violates check constraint''))
      in case error of
           Some msg \<Rightarrow> (Inl msg, st1)
         | None \<Rightarrow>
             (Inr (apply_journey_update u existing),
              st1\<lparr>journey_items :=
                    map (\<lambda>j. if j_id j = ident then apply_journey_update u j else j)
                      (journey_items st1)\<rparr>))"

definition update_journey_threw :: "services \<Rightarrow> backend \<Rightarrow> string \<Rightarrow> http_response \<times> backend" where
  "update_journey_threw sv st msg =
     (res_status_json 500 (sendError (sv_now sv) ''Failed to update journey item'' 500 (JStr msg)),
      emit (ConsoleError ''Update journey item error:'') st)"

text \<open>
  \<^verbatim>\<open>updateJourneyItem\<close> from the preparation of the update data on (the source's
  lines 694 to 721).
\<close>

definition updateJourneyItem_persist ::
    "services \<Rightarrow> backend \<Rightarrow> nat \<Rightarrow> journey_item \<Rightarrow> update_journey_body
       \<Rightarrow> http_response \<times> backend" where
  "updateJourneyItem_persist sv st ident existing b =
     (case trim_required (uj_title b) of
        Inl msg \<Rightarrow> update_journey_threw sv st msg
      | Inr title' \<Rightarrow>
     (case trim_required (uj_company_name b) of
        Inl msg \<Rightarrow> update_journey_threw sv st msg
      | Inr company' \<Rightarrow>
     (case date_update (uj_start_date b) of
        Inl msg \<Rightarrow> update_journey_threw sv st msg
      | Inr start' \<Rightarrow>
     (case end_day_update (uj_end_date b) of
        Inl msg \<Rightarrow> update_journey_threw sv st msg
      | Inr end' \<Rightarrow>
     (case trim_required (uj_details b) of
        Inl msg \<Rightarrow> update_journey_threw sv st msg
      | Inr details' \<Rightarrow>
          (let updateData = \<lparr>ju_title = title', ju_company_name = company',
                              ju_start_date = start', ju_end_date = end',
                              ju_details = details',
                              ju_journey_type = plain_update (uj_journey_type b)\<rparr>
           in case update_journey_row sv st ident existing updateData of
                (Inl err, st1) \<Rightarrow>
                  (res_status_json 500
                     (sendError (sv_now sv) ''Failed to update journey item'' 500 JNull),
                   emit (ConsoleError ''Supabase error:'') st1)
              | (Inr row, st1) \<Rightarrow>
                  (res_json (sendSuccess (sv_now sv) (journey_json row)
                               ''Journey item updated successfully'' 200),
                   st1)))))))"

text \<open>
  The dates the update compares: \<^verbatim>\<open>start_date || existing.start_date\<close> and
  \<^verbatim>\<open>end_date !== undefined ? end_date : existing.end_date\<close>.
\<close>

definition finalStartDate :: "update_journey_body \<Rightarrow> journey_item \<Rightarrow> date_val field" where
  "finalStartDate b existing =
     (if field_truthy (uj_start_date b) then uj_start_date b
      else stored_day (j_start_date existing))"

definition finalEndDate :: "update_journey_body \<Rightarrow> journey_item \<Rightarrow> date_val field" where
  "finalEndDate b existing =
     (if uj_end_date b \<noteq> Undefined then uj_end_date b
      else stored_day_opt (j_end_date existing))"

definition updateJourneyItem_dates ::
    "services \<Rightarrow> backend \<Rightarrow> nat \<Rightarrow> journey_item \<Rightarrow> update_journey_body
       \<Rightarrow> http_response \<times> backend" where
  "updateJourneyItem_dates sv st ident existing b =
     (if field_truthy (finalEndDate b existing)
         \<and> date_le (new_Date (finalEndDate b existing)) (new_Date (finalStartDate b existing))
      then (res_status_json 400
              (sendError (sv_now sv) ''End date must be after start date'' 400 JNull),
            st)
      else updateJourneyItem_persist sv st ident existing b)"

definition updateJourneyItem ::
    "services \<Rightarrow> backend \<Rightarrow> nat \<Rightarrow> update_journey_body \<Rightarrow> http_response \<times> backend" where
  "updateJourneyItem sv st ident b =
     (let st1 = emit (StoreSelect ''journey_items'') st
      in case select_single sv 0 (filter (\<lambda>j. j_id j = ident) (journey_items st1)) of
           None \<Rightarrow>
             (res_status_json 404 (sendError (sv_now sv) ''Journey item not found'' 404 JNull),
              st1)
         | Some existingJourneyItem \<Rightarrow>
             (if string_truthy (uj_title b) \<and> string_truthy (uj_company_name b)
                 \<and> (string_of (uj_title b) \<noteq> j_title existingJourneyItem
                      \<or> string_of (uj_company_name b) \<noteq> j_company_name existingJourneyItem)
              then
                (let st2 = emit (StoreSelect ''journey_items'') st1;
                     duplicateJourneyItem =
                       select_single sv 1
                         (filter (\<lambda>j. j_title j = string_of (uj_title b)
                                          \<and> j_company_name j = string_of (uj_company_name b)
                                          \<and> j_id j \<noteq> ident) (journey_items st2))
                 in if duplicateJourneyItem \<noteq> None
                    then (res_status_json 400
                            (sendError (sv_now sv)
                               ''Journey item with this title and company already exists''
                               400 JNull),
                          st2)
                    else updateJourneyItem_dates sv st2 ident existingJourneyItem b)
              else updateJourneyItem_dates sv st1 ident existingJourneyItem b))"

section \<open>The upload middleware and the create routes (middleware/upload.js, routes)\<close>

text \<open>
  The two environment variables the middleware reads: \<^verbatim>\<open>MAX_FILE_SIZE\<close> after
  \<^verbatim>\<open>parseInt\<close> (\<open>None\<close> when it is unset or not a number) and
  \<^verbatim>\<open>ALLOWED_IMAGE_TYPES\<close>.
\<close>

record environment =
  env_MAX_FILE_SIZE :: "int option"
  env_ALLOWED_IMAGE_TYPES :: "string option"

definition fileSize_limit :: "environment \<Rightarrow> int" where
  "fileSize_limit env =
     (case env_MAX_FILE_SIZE env of
        None \<Rightarrow> 10 * 1024 * 1024
      | Some n \<Rightarrow> (if n = 0 then 10 * 1024 * 1024 else n))"

definition allowedTypes :: "environment \<Rightarrow> string list" where
  "allowedTypes env =
     (case env_ALLOWED_IMAGE_TYPES env of
        None \<Rightarrow> [''image/jpeg'', ''image/png'', ''image/gif'', ''image/webp'']
      | Some v \<Rightarrow> split_on CHR '','' v)"

datatype upload_error = MulterError string | OtherError string

definition fileFilter :: "environment \<Rightarrow> upload_file \<Rightarrow> upload_error + bool" where
  "fileFilter env file =
     (if f_mimetype file \<in> set (allowedTypes env) then Inr True
      else Inl (OtherError
             ''Invalid file type. Only JPEG, PNG, GIF, and WebP images are allowed.''))"

text \<open>
  Multer's \<^verbatim>\<open>any()\<close> with the options of the middleware, on the file parts of a
  request in their order; \<open>n\<close> counts the files accepted so far. A part beyond the
  limit \<^verbatim>\<open>files: 1\<close> ends the request with \<^verbatim>\<open>LIMIT_FILE_COUNT\<close>; each
  part meets the file filter before it is read. The reader of the parts reports the
  size limit when the bytes it has read reach \<^verbatim>\<open>limits.fileSize\<close>, which ends
  the request with \<^verbatim>\<open>LIMIT_FILE_SIZE\<close>: a part of exactly that many bytes is
  refused like a larger one, and a negative limit is never reached, so it refuses
  nothing. The accepted parts are held in memory; what the buffer of a part holds
  under a negative limit is not modelled.
\<close>

fun multer_any :: "environment \<Rightarrow> nat \<Rightarrow> upload_file list \<Rightarrow> upload_error + upload_file list" where
  "multer_any env n [] = Inr []"
| "multer_any env n (f # fs) =
     (if 1 \<le> n then Inl (MulterError ''LIMIT_FILE_COUNT'')
      else (case fileFilter env f of
              Inl err \<Rightarrow> Inl err
            | Inr ok \<Rightarrow>
                (if 0 < fileSize_limit env \<and> fileSize_limit env \<le> int (f_size f)
                 then Inl (MulterError ''LIMIT_FILE_SIZE'')
                 else (case multer_any env (Suc n) fs of
                         Inl err \<Rightarrow> Inl err
                       | Inr accepted \<Rightarrow> Inr (f # accepted)))))"

text \<open>
  The middleware \<^verbatim>\<open>uploadProjectImage\<close>: an error of Multer goes to
  \<^verbatim>\<open>next(err)\<close>; otherwise \<^verbatim>\<open>req.file\<close> is the first part sent under one of
  the two field names, renamed to \<open>image\<close>.
\<close>

definition uploadProjectImage_middleware ::
    "environment \<Rightarrow> upload_file list \<Rightarrow> upload_error + upload_file option" where
  "uploadProjectImage_middleware env files =
     (case multer_any env 0 files of
        Inl err \<Rightarrow> Inl err
      | Inr accepted \<Rightarrow>
          Inr (case find (\<lambda>f. f_fieldname f \<in> set [''image'', ''uploadedFile'']) accepted of
                 None \<Rightarrow> None
               | Some f \<Rightarrow>
                   Some (if f_fieldname f = ''uploadedFile''
                         then f\<lparr>f_fieldname := ''image''\<rparr> else f)))"

text \<open>
  What a route ends with: a response, or an error handed on with \<^verbatim>\<open>next(error)\<close>
  to the application's error handler.
\<close>

datatype route_result = Responded http_response | NextError upload_error

definition upload_error_body :: "string \<Rightarrow> jsval" where
  "upload_error_body msg = JObj [(''success'', JBool False), (''error'', JStr msg)]"

fun handleUploadError :: "upload_error \<Rightarrow> route_result" where
  "handleUploadError (MulterError code) =
     (if code = ''LIMIT_FILE_SIZE''
      then Responded (res_status_json 400
             (upload_error_body ''File too large. Maximum size allowed is 10MB.''))
      else if code = ''LIMIT_FILE_COUNT''
      then Responded (res_status_json 400
             (upload_error_body ''Too many files. Only one file allowed.''))
      else NextError (MulterError code))"
| "handleUploadError (OtherError msg) =
     (if js_includes msg ''Invalid file type''
      then Responded (res_status_json 400 (upload_error_body msg))
      else NextError (OtherError msg))"

text \<open>
  \<^verbatim>\<open>POST /api/projects\<close>: the upload middleware, its error handler, the controller.
\<close>

definition post_projects ::
    "environment \<Rightarrow> services \<Rightarrow> backend \<Rightarrow> create_project_body \<Rightarrow> upload_file list
       \<Rightarrow> route_result \<times> backend" where
  "post_projects env sv st b files =
     (case uploadProjectImage_middleware env files of
        Inl err \<Rightarrow> (handleUploadError err, st)
      | Inr file \<Rightarrow>
          (case createProject sv st b file of (res, st1) \<Rightarrow> (Responded res, st1)))"



text \<open>\<^verbatim>\<open>POST /api/journey\<close>: the controller alone.\<close>

definition post_journey ::
    "services \<Rightarrow> backend \<Rightarrow> create_journey_body \<Rightarrow> route_result \<times> backend" where
  "post_journey sv st b =
     (case createJourneyItem sv st b of (res, st1) \<Rightarrow> (Responded res, st1))"







section \<open>A sample deployment\<close>

text \<open>
  Concrete services and a concrete store, for evaluating the controllers: one project
  with an image, the write to the store failing.
\<close>

definition sample_services :: services where
  "sample_services =
     \<lparr>sv_now = ''2024-01-15T10:30:00.000Z'',
      sv_uuid = ''0b9f6c1e'',
      sv_extname = (\<lambda>n. ''.png''),
      sv_public_url = (\<lambda>n. ''https://demo.supabase.co/storage/v1/object/public/project-images/'' @ n),
      sv_upload_error = None,
      sv_remove_error = (\<lambda>n. None),
      sv_select_error = (\<lambda>k. None),
      sv_write_error = Some ''connection lost'',
      sv_new_id = 2\<rparr>"

definition sample_project :: project where
  "sample_project =
     \<lparr>p_id = 1, p_name = ''Portfolio'', p_details = ''A personal portfolio site'',
      p_image_url = Some ''https://demo.supabase.co/storage/v1/object/public/project-images/old.png'',
      p_skills = [''React''], p_demo_link = None, p_github_link = None\<rparr>"

definition sample_backend :: backend where
  "sample_backend =
     \<lparr>projects = [sample_project], certifications = [], journey_items = [],
      blobs = [''old.png''], trace = []\<rparr>"

definition sample_file :: upload_file where
  "sample_file =
     \<lparr>f_fieldname = ''image'', f_originalname = ''photo.png'', f_mimetype = ''image/png'',
      f_size = 2048\<rparr>"

definition sample_create_body :: create_project_body where
  "sample_create_body =
     \<lparr>cb_name = ''Weather app'', cb_details = ''Forecasts for the week ahead'',
      cb_skills = SkillsArray [''Node.js''], cb_demo_link = Undefined, cb_github_link = Undefined\<rparr>"

definition sample_update_body :: update_project_body where
  "sample_update_body =
     \<lparr>ub_name = Undefined, ub_details = Val ''A personal portfolio site, restyled'',
      ub_skills = SkillsUndefined, ub_demo_link = Undefined, ub_github_link = Undefined\<rparr>"

text \<open>
  The same services with a store that accepts writes, a store holding two
  certifications of one issuer and two journey items of one company, an environment
  without the two variables, and a PDF sent as the image.
\<close>

definition healthy_services :: services where
  "healthy_services = sample_services\<lparr>sv_write_error := None\<rparr>"

definition sample_career :: backend where
  "sample_career =
     \<lparr>projects = [],
      certifications =
        [\<lparr>c_id = 1, c_title = ''Cloud Architect'', c_issuer = ''Amazon'', c_issued_date = 19400,
          c_certification_id = None, c_details = None, c_link_url = None\<rparr>,
         \<lparr>c_id = 2, c_title = ''Cloud Developer'', c_issuer = ''Amazon'', c_issued_date = 19500,
          c_certification_id = None, c_details = None, c_link_url = None\<rparr>],
      journey_items =
        [\<lparr>j_id = 1, j_title = ''Engineer'', j_company_name = ''Acme'', j_start_date = 19000,
          j_end_date = None, j_details = ''Builds the billing service'',
          j_journey_type = ''Experience''\<rparr>,
         \<lparr>j_id = 2, j_title = ''Intern'', j_company_name = ''Acme'', j_start_date = 18000,
          j_end_date = Some 18200, j_details = ''Summer internship in the data team'',
          j_journey_type = ''Experience''\<rparr>],
      blobs = [], trace = []\<rparr>"

definition default_environment :: environment where
  "default_environment = \<lparr>env_MAX_FILE_SIZE = None, env_ALLOWED_IMAGE_TYPES = None\<rparr>"


definition title_only :: update_certification_body where
  "title_only =
     \<lparr>uc_title = Val ''Cloud Architect'', uc_issuer = Undefined, uc_issued_date = Undefined,
      uc_certification_id = Undefined, uc_details = Undefined, uc_link_url = Undefined\<rparr>"

definition journey_title_only :: update_journey_body where
  "journey_title_only =
     \<lparr>uj_title = Val ''Engineer'', uj_company_name = Undefined, uj_start_date = Undefined,
      uj_end_date = Undefined, uj_details = Undefined, uj_journey_type = Undefined\<rparr>"

definition short_details_project :: create_project_body where
  "short_details_project =
     \<lparr>cb_name = ''Demo'', cb_details = ''short'', cb_skills = SkillsUndefined,
      cb_demo_link = Undefined, cb_github_link = Undefined\<rparr>"

definition untitled_journey :: create_journey_body where
  "untitled_journey =
     \<lparr>cj_title = [], cj_company_name = ''Acme'', cj_start_date = Val (Instant 1704067200000),
      cj_end_date = Undefined, cj_details = ''short'', cj_journey_type = ''Experience''\<rparr>"

definition sample_journey :: create_journey_body where
  "sample_journey =
     \<lparr>cj_title = ''Consultant'', cj_company_name = ''Initech'',
      cj_start_date = Val (Instant 1704067200000), cj_end_date = Val (Instant 1711929600000),
      cj_details = ''Advises on payment systems'', cj_journey_type = ''Experience''\<rparr>"

definition sample_journey_update :: update_journey_body where
  "sample_journey_update =
     \<lparr>uj_title = Undefined, uj_company_name = Undefined, uj_start_date = Undefined,
      uj_end_date = Val (Instant 1711929600000), uj_details = Undefined,
      uj_journey_type = Undefined\<rparr>"


definition twice_named_backend :: backend where
  "twice_named_backend =
     \<lparr>projects = [sample_project, sample_project\<lparr>p_id := 3, p_image_url := None\<rparr>],
      certifications = [], journey_items = [], blobs = [''old.png''], trace = []\<rparr>"

definition failing_lookup_services :: services where
  "failing_lookup_services = healthy_services\<lparr>sv_select_error := (\<lambda>k. Some ''timeout'')\<rparr>"


definition same_day_journey :: create_journey_body where
  "same_day_journey =
     \<lparr>cj_title = ''Consultant'', cj_company_name = ''Initech'',
      cj_start_date = Val (Instant 1704067200000), cj_end_date = Val (Instant 1704103200000),
      cj_details = ''Advises on payment systems'', cj_journey_type = ''Experience''\<rparr>"

definition epoch_end_journey :: create_journey_body where
  "epoch_end_journey =
     \<lparr>cj_title = ''Consultant'', cj_company_name = ''Initech'',
      cj_start_date = Val (Instant 1704067200000), cj_end_date = Val (Falsy (Some 0)),
      cj_details = ''Advises on payment systems'', cj_journey_type = ''Experience''\<rparr>"

definition details_only_update :: update_journey_body where
  "details_only_update =
     \<lparr>uj_title = Undefined, uj_company_name = Undefined, uj_start_date = Undefined,
      uj_end_date = Undefined, uj_details = Val ''Advises on payment and billing systems'',
      uj_journey_type = Undefined\<rparr>"

section \<open>Pagination\<close>










text \<open>
  Claim C10. When a list matches no row, \<^verbatim>\<open>calculatePagination\<close> computes
  \<open>pages = 0 = \<lceil>0 / limit\<rceil>\<close>, but the response of \<^verbatim>\<open>getAllProjects\<close>
  reports \<open>pages = 1\<close>, whether the store counts zero rows or gives no count at all;
  and \<^verbatim>\<open>sendPaginatedResponse\<close> replaces a falsy \<open>page\<close>, \<open>limit\<close>,
  \<open>hasNext\<close> or \<open>hasPrev\<close> by its default (1, 10, false, false).
\<close>

theorem empty_list_reports_one_page:
  "limit \<noteq> 0 \<Longrightarrow>
   pg_pages (calculatePagination page limit 0) = JsInt 0 \<and>
   \<lceil>real 0 / real_of_int limit\<rceil> = 0 \<and>
   jpath [''json'', ''pagination'', ''pages'']
     (body (getAllProjects now q (Fulfilled \<lparr>lr_data = d, lr_error = None, lr_count = Some 0\<rparr>)))
     = Some (JNum (JsInt 1)) \<and>
   jpath [''json'', ''pagination'', ''pages'']
     (body (getAllProjects now q (Fulfilled \<lparr>lr_data = d, lr_error = None, lr_count = None\<rparr>)))
     = Some (JNum (JsInt 1)) \<and>
   jpath [''json'', ''pagination'', ''pages'']
     (sendPaginatedResponse now d (p\<lparr>pg_pages := JsInt 0\<rparr>) m) = Some (JNum (JsInt 1)) \<and>
   jpath [''json'', ''pagination'', ''page'']
     (sendPaginatedResponse now d (p\<lparr>pg_page := 0\<rparr>) m) = Some (JNum (JsInt 1)) \<and>
   jpath [''json'', ''pagination'', ''limit'']
     (sendPaginatedResponse now d (p\<lparr>pg_limit := 0\<rparr>) m) = Some (JNum (JsInt 10)) \<and>
   jpath [''json'', ''pagination'', ''hasNext'']
     (sendPaginatedResponse now d (p\<lparr>pg_hasNext := False\<rparr>) m) = Some (JBool False) \<and>
   jpath [''json'', ''pagination'', ''hasPrev'']
     (sendPaginatedResponse now d (p\<lparr>pg_hasPrev := False\<rparr>) m) = Some (JBool False)"
  by (simp add: calculatePagination_def math_ceil_div_def getAllProjects_def res_json_def
      sendPaginatedResponse_def or_else_def count_or_zero_def Let_def)

theorem empty_list_reports_one_page_witness:
  "(10::int) \<noteq> 0 \<and>
   pg_pages (calculatePagination 1 10 0) = JsInt 0 \<and>
   jpath [''json'', ''pagination'', ''pages'']
     (body (getAllProjects ''2024-01-15T10:30:00.000Z'' \<lparr>q_page = None, q_limit = Some 10\<rparr>
        (Fulfilled \<lparr>lr_data = JArr [], lr_error = None, lr_count = Some 0\<rparr>)))
     = Some (JNum (JsInt 1))"
proof -
  have h: "(10::int) \<noteq> 0" by simp
  show ?thesis
    using empty_list_reports_one_page [OF h, of 1 "''2024-01-15T10:30:00.000Z''"
        "\<lparr>q_page = None, q_limit = Some 10\<rparr>" "JArr []"]
    by simp
qed

section \<open>The response envelope\<close>

lemma wrapper_keys:
  "keys_of (sendError now m c e) = [''statusCode'', ''json'']"
  "keys_of (sendSuccess now d m c) = [''statusCode'', ''json'']"
  "keys_of (sendPaginatedResponse now d p m) = [''statusCode'', ''json'']"
  "keys_of (sendSearchResponse now d qy fl p) = [''statusCode'', ''json'']"
  by (simp_all add: sendError_def sendSuccess_def sendPaginatedResponse_def sendSearchResponse_def)

lemma createProject_persist_keys:
  "keys_of (body (fst (createProject_persist sv st b u))) = [''statusCode'', ''json'']"
  by (simp add: createProject_persist_def insert_project_def Let_def res_status_json_def
      wrapper_keys split: option.splits)

lemma createProject_keys:
  "keys_of (body (fst (createProject sv st b file))) = [''statusCode'', ''json'']"
  by (simp add: createProject_def Let_def res_status_json_def wrapper_keys
      createProject_persist_keys split: option.splits sum.splits prod.splits)

lemma updateProject_persist_keys:
  "keys_of (body (fst (updateProject_persist sv st i ex b up u))) = [''statusCode'', ''json'']"
  by (simp add: updateProject_persist_def update_project_row_def Let_def res_status_json_def
      res_json_def wrapper_keys split: option.splits sum.splits)

lemma updateProject_keys:
  "keys_of (body (fst (updateProject sv st i b file))) = [''statusCode'', ''json'']"
  by (simp add: updateProject_def updateProject_image_def Let_def res_status_json_def
      wrapper_keys updateProject_persist_keys split: option.splits sum.splits prod.splits)

lemma createJourneyItem_keys:
  "keys_of (body (fst (createJourneyItem sv st b))) = [''statusCode'', ''json'']"
  by (simp add: createJourneyItem_def create_journey_threw_def insert_journey_def Let_def
      res_status_json_def wrapper_keys split: option.splits sum.splits prod.splits)

text \<open>
  Claim C1. The object a controller gives to \<^verbatim>\<open>res.json\<close> is the formatter's whole
  result \<^verbatim>\<open>{ statusCode, json }\<close>: for every outcome of the list, search, create
  and update controllers its top-level properties are \<open>statusCode\<close> and \<open>json\<close>,
  so it has no top-level \<open>success\<close>, \<open>message\<close> or \<open>timestamp\<close>. When the store
  reports an error to \<^verbatim>\<open>getAllProjects\<close>, the envelope with \<open>success = false\<close>
  sits one level down, under \<open>json\<close>.
\<close>

theorem envelope_is_nested_under_json:
  "keys_of (body (getAllProjects now q outcome)) = [''statusCode'', ''json''] \<and>
   keys_of (body (searchProjects now s q outcome)) = [''statusCode'', ''json''] \<and>
   keys_of (body (fst (createProject sv st cb upl))) = [''statusCode'', ''json''] \<and>
   keys_of (body (fst (updateProject sv st ident ub upl))) = [''statusCode'', ''json''] \<and>
   keys_of (body (fst (createJourneyItem sv st cj))) = [''statusCode'', ''json''] \<and>
   jget ''success'' (body (getAllProjects now q outcome)) = None \<and>
   jget ''message'' (body (getAllProjects now q outcome)) = None \<and>
   jget ''timestamp'' (body (getAllProjects now q outcome)) = None \<and>
   body (getAllProjects now q
           (Fulfilled \<lparr>lr_data = JNull, lr_error = Some e, lr_count = None\<rparr>))
     = JObj [(''statusCode'', JNum (JsInt 500)),
             (''json'', JObj [(''success'', JBool False),
                              (''message'', JStr ''Failed to fetch projects''),
                              (''timestamp'', JStr now)])]"
proof -
  have l: "keys_of (body (getAllProjects now q outcome)) = [''statusCode'', ''json''] \<and>
   keys_of (body (searchProjects now s q outcome)) = [''statusCode'', ''json''] \<and>
   jget ''success'' (body (getAllProjects now q outcome)) = None \<and>
   jget ''message'' (body (getAllProjects now q outcome)) = None \<and>
   jget ''timestamp'' (body (getAllProjects now q outcome)) = None \<and>
   body (getAllProjects now q
           (Fulfilled \<lparr>lr_data = JNull, lr_error = Some e, lr_count = None\<rparr>))
     = JObj [(''statusCode'', JNum (JsInt 500)),
             (''json'', JObj [(''success'', JBool False),
                              (''message'', JStr ''Failed to fetch projects''),
                              (''timestamp'', JStr now)])]"
    by (simp add: getAllProjects_def searchProjects_def res_status_json_def res_json_def
        sendError_def sendPaginatedResponse_def sendSearchResponse_def Let_def
        split: list_outcome.splits)
  show ?thesis
    using l createProject_keys [of sv st cb upl] updateProject_keys [of sv st ident ub upl]
      createJourneyItem_keys [of sv st cj]
    by simp
qed

section \<open>Project images and names\<close>



















lemma sample_generated_name: "generated_name sample_services sample_file = ''0b9f6c1e.png''"
  by (simp add: generated_name_def sample_services_def sample_file_def)

text \<open>
  Claim C2, at the sample deployment: a project update that carries a new image while
  the store refuses the write. The old image \<open>old.png\<close> is removed from the blob
  store before the update of the row is attempted; the update then fails (status 500),
  the row is unchanged and still names the old image, and the bucket ends up holding
  neither image.
\<close>

theorem old_image_deleted_before_failed_update:
  "trace (snd (updateProject sample_services sample_backend 1 sample_update_body (Some sample_file)))
     = [StoreSelect ''projects'', BlobUpload ''0b9f6c1e.png'', BlobRemove ''old.png'',
        StoreUpdate ''projects'', BlobRemove ''0b9f6c1e.png'', ConsoleError ''Supabase error:''] \<and>
   status (fst (updateProject sample_services sample_backend 1 sample_update_body (Some sample_file)))
     = 500 \<and>
   projects (snd (updateProject sample_services sample_backend 1 sample_update_body (Some sample_file)))
     = [sample_project] \<and>
   p_image_url sample_project
     = Some ''https://demo.supabase.co/storage/v1/object/public/project-images/old.png'' \<and>
   blobs sample_backend = [''old.png''] \<and>
   blobs (snd (updateProject sample_services sample_backend 1 sample_update_body (Some sample_file)))
     = []"
  by (simp add: updateProject_def updateProject_image_def updateProject_persist_def
      uploadToSupabaseStorage_def delete_old_image_def delete_by_url_def
      deleteFromSupabaseStorage_def update_project_row_def generated_name_def emit_def
      select_single_def single_def Let_def extractFilenameFromUrl_def res_status_json_def
      sample_services_def sample_backend_def sample_project_def sample_file_def
      sample_update_body_def)



text \<open>
  Claim C7, at two stores. In the first, two projects are already named
  \<open>Portfolio\<close>: the look-up for that name matches both, so it yields no row, and a
  third \<open>Portfolio\<close> is created with its image (status 201). In the second, one
  project is named \<open>Portfolio\<close> and the look-up itself fails: the controller drops
  the error, and a second \<open>Portfolio\<close> is created.
\<close>

theorem duplicate_name_accepted:
  "map p_name (projects twice_named_backend) = [''Portfolio'', ''Portfolio''] \<and>
   status (fst (createProject healthy_services twice_named_backend
                  (sample_create_body\<lparr>cb_name := ''Portfolio''\<rparr>) (Some sample_file))) = 201 \<and>
   trace (snd (createProject healthy_services twice_named_backend
                 (sample_create_body\<lparr>cb_name := ''Portfolio''\<rparr>) (Some sample_file)))
     = [StoreSelect ''projects'', BlobUpload ''0b9f6c1e.png'', StoreInsert ''projects''] \<and>
   map p_name (projects (snd (createProject healthy_services twice_named_backend
                                (sample_create_body\<lparr>cb_name := ''Portfolio''\<rparr>)
                                (Some sample_file))))
     = [''Portfolio'', ''Portfolio'', ''Portfolio''] \<and>
   map p_name (projects sample_backend) = [''Portfolio''] \<and>
   status (fst (createProject failing_lookup_services sample_backend
                  (sample_create_body\<lparr>cb_name := ''Portfolio''\<rparr>) None)) = 201 \<and>
   trace (snd (createProject failing_lookup_services sample_backend
                 (sample_create_body\<lparr>cb_name := ''Portfolio''\<rparr>) None))
     = [StoreSelect ''projects'', StoreInsert ''projects''] \<and>
   map p_name (projects (snd (createProject failing_lookup_services sample_backend
                                (sample_create_body\<lparr>cb_name := ''Portfolio''\<rparr>) None)))
     = [''Portfolio'', ''Portfolio'']"
  by (simp add: createProject_def createProject_persist_def insert_project_def
      uploadToSupabaseStorage_def generated_name_def select_single_def single_def emit_def
      Let_def res_status_json_def failing_lookup_services_def healthy_services_def
      sample_services_def twice_named_backend_def sample_backend_def sample_project_def
      sample_file_def sample_create_body_def)

section \<open>Journey dates\<close>

text \<open>
  Claim C9, at the sample store. A journey item is created with a start date of
  2024-01-01, midnight, and an end date ten hours later the same day: the instants
  differ, the controller accepts (status 201), and the row is stored with the end date
  equal to the start date, both day 19723. The controller's own check then refuses
  every later update of that row, even one that changes the details only. A journey
  item created with the end date 0, the epoch, which lies before its start date, is
  accepted as well and stored without an end date.
\<close>

theorem end_date_equal_to_start_is_stored:
  "new_Date (cj_start_date same_day_journey) = Some 1704067200000 \<and>
   new_Date (cj_end_date same_day_journey) = Some 1704103200000 \<and>
   status (fst (createJourneyItem (healthy_services\<lparr>sv_new_id := 3\<rparr>) sample_career
                  same_day_journey)) = 201 \<and>
   journey_items (snd (createJourneyItem (healthy_services\<lparr>sv_new_id := 3\<rparr>) sample_career
                         same_day_journey))
     = journey_items sample_career @
       [\<lparr>j_id = 3, j_title = ''Consultant'', j_company_name = ''Initech'',
         j_start_date = 19723, j_end_date = Some 19723,
         j_details = ''Advises on payment systems'', j_journey_type = ''Experience''\<rparr>] \<and>
   fst (updateJourneyItem (healthy_services\<lparr>sv_new_id := 3\<rparr>)
          (snd (createJourneyItem (healthy_services\<lparr>sv_new_id := 3\<rparr>) sample_career
                  same_day_journey))
          3 details_only_update)
     = res_status_json 400
         (sendError ''2024-01-15T10:30:00.000Z'' ''End date must be after start date'' 400 JNull) \<and>
   new_Date (cj_end_date epoch_end_journey) = Some 0 \<and>
   new_Date (cj_start_date epoch_end_journey) = Some 1704067200000 \<and>
   status (fst (createJourneyItem (healthy_services\<lparr>sv_new_id := 3\<rparr>) sample_career
                  epoch_end_journey)) = 201 \<and>
   journey_items (snd (createJourneyItem (healthy_services\<lparr>sv_new_id := 3\<rparr>) sample_career
                         epoch_end_journey))
     = journey_items sample_career @
       [\<lparr>j_id = 3, j_title = ''Consultant'', j_company_name = ''Initech'',
         j_start_date = 19723, j_end_date = None,
         j_details = ''Advises on payment systems'', j_journey_type = ''Experience''\<rparr>]"
proof -
  let ?sv = "healthy_services\<lparr>sv_new_id := 3\<rparr>"
  have c: "createJourneyItem ?sv sample_career same_day_journey =
      (res_status_json 201
         (sendSuccess ''2024-01-15T10:30:00.000Z''
            (journey_json \<lparr>j_id = 3, j_title = ''Consultant'', j_company_name = ''Initech'',
               j_start_date = 19723, j_end_date = Some 19723,
               j_details = ''Advises on payment systems'', j_journey_type = ''Experience''\<rparr>)
            ''Journey item created successfully'' 201),
       sample_career\<lparr>trace := [StoreSelect ''journey_items'', StoreInsert ''journey_items''],
         journey_items := journey_items sample_career @
           [\<lparr>j_id = 3, j_title = ''Consultant'', j_company_name = ''Initech'',
             j_start_date = 19723, j_end_date = Some 19723,
             j_details = ''Advises on payment systems'', j_journey_type = ''Experience''\<rparr>]\<rparr>)"
    by (simp add: createJourneyItem_def insert_journey_def end_day_def journey_type_ok_def
        js_trim_def white_space_def ms_per_day_def select_single_def single_def emit_def
        Let_def healthy_services_def sample_services_def sample_career_def
        same_day_journey_def)
  have u: "fst (updateJourneyItem ?sv
          (snd (createJourneyItem ?sv sample_career same_day_journey)) 3 details_only_update)
     = res_status_json 400
         (sendError ''2024-01-15T10:30:00.000Z'' ''End date must be after start date'' 400 JNull)"
    unfolding c
    by (simp add: updateJourneyItem_def updateJourneyItem_dates_def finalStartDate_def
        finalEndDate_def stored_day_def stored_day_opt_def ms_per_day_def select_single_def
        single_def emit_def Let_def healthy_services_def sample_services_def
        sample_career_def details_only_update_def)
  have e: "createJourneyItem ?sv sample_career epoch_end_journey =
      (res_status_json 201
         (sendSuccess ''2024-01-15T10:30:00.000Z''
            (journey_json \<lparr>j_id = 3, j_title = ''Consultant'', j_company_name = ''Initech'',
               j_start_date = 19723, j_end_date = None,
               j_details = ''Advises on payment systems'', j_journey_type = ''Experience''\<rparr>)
            ''Journey item created successfully'' 201),
       sample_career\<lparr>trace := [StoreSelect ''journey_items'', StoreInsert ''journey_items''],
         journey_items := journey_items sample_career @
           [\<lparr>j_id = 3, j_title = ''Consultant'', j_company_name = ''Initech'',
             j_start_date = 19723, j_end_date = None,
             j_details = ''Advises on payment systems'', j_journey_type = ''Experience''\<rparr>]\<rparr>)"
    by (simp add: createJourneyItem_def insert_journey_def end_day_def journey_type_ok_def
        js_trim_def white_space_def ms_per_day_def select_single_def single_def emit_def
        Let_def healthy_services_def sample_services_def sample_career_def
        epoch_end_journey_def)
  have d: "new_Date (cj_start_date same_day_journey) = Some 1704067200000 \<and>
   new_Date (cj_end_date same_day_journey) = Some 1704103200000 \<and>
   new_Date (cj_end_date epoch_end_journey) = Some 0 \<and>
   new_Date (cj_start_date epoch_end_journey) = Some 1704067200000"
    by (simp add: same_day_journey_def epoch_end_journey_def)
  show ?thesis
    using u d by (simp add: c e res_status_json_def)
qed

theorem end_date_equal_to_start_is_stored_witness:
  "(1704067200000 :: int) < 1704103200000 \<and>
   1704067200000 div ms_per_day = 19723 \<and>
   1704103200000 div ms_per_day = 19723 \<and>
   map (\<lambda>j. (j_start_date j, j_end_date j))
     (journey_items (snd (createJourneyItem (healthy_services\<lparr>sv_new_id := 3\<rparr>) sample_career
                            same_day_journey)))
     = [(19000, None), (18000, Some 18200), (19723, Some 19723)] \<and>
   status (fst (updateJourneyItem (healthy_services\<lparr>sv_new_id := 3\<rparr>)
          (snd (createJourneyItem (healthy_services\<lparr>sv_new_id := 3\<rparr>) sample_career
                  same_day_journey))
          3 details_only_update)) = 400"
proof -
  have s: "journey_items sample_career
     = [\<lparr>j_id = 1, j_title = ''Engineer'', j_company_name = ''Acme'', j_start_date = 19000,
          j_end_date = None, j_details = ''Builds the billing service'',
          j_journey_type = ''Experience''\<rparr>,
         \<lparr>j_id = 2, j_title = ''Intern'', j_company_name = ''Acme'', j_start_date = 18000,
          j_end_date = Some 18200, j_details = ''Summer internship in the data team'',
          j_journey_type = ''Experience''\<rparr>]"
    by (simp add: sample_career_def)
  show ?thesis
    using end_date_equal_to_start_is_stored
    by (simp add: s ms_per_day_def res_status_json_def)
qed

section \<open>Uploads\<close>








section \<open>Duplicate checks and validation\<close>

text \<open>
  Claim C5, at the sample store. Certification 2 is \<open>Cloud Developer\<close> by
  \<open>Amazon\<close>, certification 1 is \<open>Cloud Architect\<close> by \<open>Amazon\<close>. An update of
  certification 2 that supplies only the title \<open>Cloud Architect\<close> makes no duplicate
  look-up (the trace has the one select by identifier), writes, and answers 200: two
  rows now share title and issuer. The journey controller does the same for a title
  supplied without the company name.
\<close>

theorem single_component_update_skips_duplicate_check:
  "status (fst (updateCertification healthy_services sample_career 2 title_only)) = 200 \<and>
   trace (snd (updateCertification healthy_services sample_career 2 title_only))
     = [StoreSelect ''certifications'', StoreUpdate ''certifications''] \<and>
   map (\<lambda>c. (c_id c, c_title c, c_issuer c))
     (certifications (snd (updateCertification healthy_services sample_career 2 title_only)))
     = [(1, ''Cloud Architect'', ''Amazon''), (2, ''Cloud Architect'', ''Amazon'')] \<and>
   status (fst (updateJourneyItem healthy_services sample_career 2 journey_title_only)) = 200 \<and>
   trace (snd (updateJourneyItem healthy_services sample_career 2 journey_title_only))
     = [StoreSelect ''journey_items'', StoreUpdate ''journey_items''] \<and>
   map (\<lambda>j. (j_id j, j_title j, j_company_name j))
     (journey_items (snd (updateJourneyItem healthy_services sample_career 2 journey_title_only)))
     = [(1, ''Engineer'', ''Acme''), (2, ''Engineer'', ''Acme'')]"
  by (simp add: updateCertification_def updateCertification_persist_def
      update_certification_row_def apply_certification_update_def date_update_def
      updateJourneyItem_def updateJourneyItem_dates_def updateJourneyItem_persist_def
      update_journey_row_def apply_journey_update_def end_day_update_def
      finalStartDate_def finalEndDate_def stored_day_def stored_day_opt_def ms_per_day_def
      or_keep_def js_trim_def white_space_def emit_def select_single_def single_def Let_def
      res_json_def
      healthy_services_def sample_services_def sample_career_def title_only_def
      journey_title_only_def)


theorem single_component_update_skips_duplicate_check_witness:
  "string_truthy (uc_title title_only) \<and> \<not> string_truthy (uc_issuer title_only) \<and>
   \<not> distinct (map (\<lambda>c. (c_title c, c_issuer c))
       (certifications (snd (updateCertification healthy_services sample_career 2 title_only)))) \<and>
   string_truthy (uj_title journey_title_only) \<and>
   \<not> string_truthy (uj_company_name journey_title_only) \<and>
   \<not> distinct (map (\<lambda>j. (j_title j, j_company_name j))
       (journey_items (snd (updateJourneyItem healthy_services sample_career 2
                              journey_title_only))))"
proof -
  let ?cs = "certifications (snd (updateCertification healthy_services sample_career 2 title_only))"
  let ?js = "journey_items (snd (updateJourneyItem healthy_services sample_career 2
                                   journey_title_only))"
  have c: "map (\<lambda>c. (c_title c, c_issuer c)) ?cs
             = map snd (map (\<lambda>c. (c_id c, c_title c, c_issuer c)) ?cs)"
    by (simp add: comp_def)
  have j: "map (\<lambda>j. (j_title j, j_company_name j)) ?js
             = map snd (map (\<lambda>j. (j_id j, j_title j, j_company_name j)) ?js)"
    by (simp add: comp_def)
  have t: "string_truthy (uc_title title_only) \<and> \<not> string_truthy (uc_issuer title_only) \<and>
           string_truthy (uj_title journey_title_only) \<and>
           \<not> string_truthy (uj_company_name journey_title_only)"
    by (simp add: title_only_def journey_title_only_def)
  show ?thesis
    unfolding c j
    using single_component_update_skips_duplicate_check t
    by simp
qed

text \<open>
  Claim C3, at the sample store. \<^verbatim>\<open>POST /api/projects\<close> with details of five
  characters reaches the controller, which queries the store, inserts the row and
  answers 201; \<^verbatim>\<open>POST /api/journey\<close> with an empty title and details of five
  characters does the same.
\<close>

theorem create_routes_do_not_validate:
  "length (cb_details short_details_project) < 10 \<and>
   fst (post_projects default_environment healthy_services sample_backend short_details_project [])
     = Responded (res_status_json 201
         (sendSuccess ''2024-01-15T10:30:00.000Z''
            (project_json \<lparr>p_id = 2, p_name = ''Demo'', p_details = ''short'', p_image_url = None,
                           p_skills = [], p_demo_link = None, p_github_link = None\<rparr>)
            ''Project created successfully'' 201)) \<and>
   trace (snd (post_projects default_environment healthy_services sample_backend
                 short_details_project []))
     = [StoreSelect ''projects'', StoreInsert ''projects''] \<and>
   map p_details (projects (snd (post_projects default_environment healthy_services sample_backend
                                   short_details_project [])))
     = [''A personal portfolio site'', ''short''] \<and>
   cj_title untitled_journey = [] \<and> length (cj_details untitled_journey) < 10 \<and>
   (\<exists>res. fst (post_journey healthy_services sample_career untitled_journey) = Responded res
           \<and> status res = 201) \<and>
   trace (snd (post_journey healthy_services sample_career untitled_journey))
     = [StoreSelect ''journey_items'', StoreInsert ''journey_items''] \<and>
   map (\<lambda>j. (j_title j, j_details j))
     (journey_items (snd (post_journey healthy_services sample_career untitled_journey)))
     = [(''Engineer'', ''Builds the billing service''),
        (''Intern'', ''Summer internship in the data team''),
        ([], ''short'')]"
  by (simp add: post_projects_def uploadProjectImage_middleware_def createProject_def
      createProject_persist_def insert_project_def post_journey_def createJourneyItem_def
      insert_journey_def end_day_def journey_type_ok_def js_trim_def white_space_def
      ms_per_day_def emit_def select_single_def single_def Let_def res_status_json_def
      healthy_services_def sample_services_def sample_backend_def sample_project_def
      sample_career_def short_details_project_def untitled_journey_def default_environment_def)

end
